theory Spec2Isabelle
  imports Main
begin

section \<open>The OAuth2 access-token cache of \<open>relay/oauth2/main.go\<close>\<close>

text \<open>
  The package holds two functions: \<open>generateAccessToken\<close>, which performs one
  client-credentials exchange over HTTP, and \<open>AccessTokenManager.GetAccessToken\<close>,
  which serves a token from a map guarded by a mutex and calls the former when the map has
  no entry that is still valid. Everything outside the package (the clock, URL parsing,
  the HTTP round trip, the JSON decoder) is a parameter of the model; what the package
  itself computes is written out.
\<close>

subsection \<open>Time\<close>

text \<open>
  A \<open>time.Time\<close> is an instant and a \<open>time.Duration\<close> a signed number of nanoseconds.
  Both readings of \<open>time.Now()\<close> carry the monotonic clock, so \<open>Before\<close> compares
  instants on one line; instants are integers (nanoseconds) here.
\<close>

type_synonym Time = int
type_synonym Duration = int

definition Hour :: Duration where
  "Hour = 60 * 60 * 1000 * 1000 * 1000"

definition Time_Add :: "Time \<Rightarrow> Duration \<Rightarrow> Time" where
  "Time_Add t d = t + d"

definition Time_Before :: "Time \<Rightarrow> Time \<Rightarrow> bool" where
  "Time_Before t u \<longleftrightarrow> t < u"

subsection \<open>Data\<close>

text \<open>Go's \<open>error\<close> interface: a value that carries a message; \<open>nil\<close> is \<open>None\<close>.\<close>

datatype error = Error string

record AccessToken =
  Value :: string
  ExpiresAt :: Time

text \<open>
  The manager: the mutex (\<open>True\<close> while held) and the cache. The map stores pointers to
  tokens that are never written after construction, so it stores the tokens. A manager is
  one that \<open>NewAccessTokenManager\<close> has made, so its map is allocated; the zero-valued
  struct, whose nil map cannot be written, is not a state here.
\<close>

record AccessTokenManager =
  mutex :: bool
  tokenCache :: "string \<rightharpoonup> AccessToken"

record AccessTokenResponse =
  AccessToken :: string
  TokenType :: string
  ExpiresIn :: int
  Scope :: string
  Jti :: string

text \<open>The zero value that \<open>var tokenResp AccessTokenResponse\<close> declares.\<close>

definition AccessTokenResponse_zero :: AccessTokenResponse where
  "AccessTokenResponse_zero =
     \<lparr>AccessToken = [], TokenType = [], ExpiresIn = 0, Scope = [], Jti = []\<rparr>"

text \<open>
  A \<open>url.URL\<close>, the parsed form of a URL string, with the fields that the concrete
  runs below look at: \<open>http.NewRequest\<close> parses the string it is given and the request
  carries the result, not the string (the scheme, for one, is lower-cased by the parser).
\<close>

record url_URL =
  Scheme :: string
  Host :: string
  Path :: string
  RawQuery :: string
  Fragment :: string

text \<open>
  An \<open>http.Request\<close> as far as this package fills it: method, the parsed URL, the
  header map (key to list of values) and the body text.
\<close>

record Request =
  Method :: string
  URL :: url_URL
  Header :: "string \<rightharpoonup> string list"
  ReqBody :: string

text \<open>
  An \<open>http.Response\<close> as far as this package reads it: the status code, which it never
  looks at, and what \<open>ioutil.ReadAll(resp.Body)\<close> gives, an error or the bytes.
\<close>

record Response =
  StatusCode :: int
  Body :: "error + string"

subsection \<open>The world outside the package\<close>

text \<open>
  The world is the clock that \<open>time.Now()\<close> reads and the requests that have gone out
  through \<open>client.Do\<close>. The counter \<open>fetch_calls\<close> is an observer added to the model:
  it counts the entries into \<open>generateAccessToken\<close>, also those that send nothing.
\<close>

record world =
  clock :: Time
  sent :: "Request list"
  fetch_calls :: nat

text \<open>
  The library calls whose results the package only passes on:
  \<^item> \<open>url_Parse\<close>: the parser that \<open>http.NewRequest\<close> applies to the URL string,
    giving the parsed URL or an error (the other error of \<open>http.NewRequest\<close>, an invalid
    method, cannot arise for \<open>POST\<close>);
  \<^item> \<open>client_Do\<close>: the round trip, which may depend on the world it happens in, takes
    some time (nanoseconds, covering the reading and decoding of the body too) and gives an
    error or a response; an exchange that never ends is left out, every statement below
    being about calls whose exchange ends;
  \<^item> \<open>json_Unmarshal\<close>: the decoder, applied to the body and the struct it is to fill.
\<close>

record env =
  url_Parse :: "string \<Rightarrow> error + url_URL"
  client_Do :: "world \<Rightarrow> Request \<Rightarrow> nat \<times> (error + Response)"
  json_Unmarshal :: "string \<Rightarrow> AccessTokenResponse \<Rightarrow> error + AccessTokenResponse"

definition time_Now :: "world \<Rightarrow> Time" where
  "time_Now w = clock w"

subsection \<open>\<open>base64.StdEncoding.EncodeToString\<close>\<close>

text \<open>
  The standard alphabet with padding. Three bytes make a 24-bit value
  \<open>b0 << 16 | b1 << 8 | b2\<close>, whose four 6-bit groups \<open>val >> 18 & 0x3F\<close>,
  \<open>val >> 12 & 0x3F\<close>, \<open>val >> 6 & 0x3F\<close>, \<open>val & 0x3F\<close> index the alphabet; a
  remainder of one or two bytes is padded with \<open>=\<close>.
\<close>

definition encodeStd :: string where
  "encodeStd = ''ABCDEFGHIJKLMNOPQRSTUVWXYZabcdefghijklmnopqrstuvwxyz0123456789+/''"

definition sextet :: "nat \<Rightarrow> nat \<Rightarrow> char" where
  "sextet val shift = encodeStd ! (val div 2 ^ shift mod 64)"

fun base64_Encode :: "nat list \<Rightarrow> string" where
  "base64_Encode (b0 # b1 # b2 # src) =
     (let val = b0 * 65536 + b1 * 256 + b2
      in sextet val 18 # sextet val 12 # sextet val 6 # sextet val 0 # base64_Encode src)"
| "base64_Encode [b0, b1] =
     (let val = b0 * 65536 + b1 * 256
      in [sextet val 18, sextet val 12, sextet val 6, CHR ''=''])"
| "base64_Encode [b0] =
     (let val = b0 * 65536
      in [sextet val 18, sextet val 12, CHR ''='', CHR ''=''])"
| "base64_Encode [] = []"

definition base64_EncodeToString :: "string \<Rightarrow> string" where
  "base64_EncodeToString s = base64_Encode (map of_char s)"

subsection \<open>\<open>generateAccessToken\<close>\<close>

text \<open>
  \<open>http.NewRequest\<close>: the URL string is parsed; on an error that error is returned,
  otherwise a request with the parsed URL and an empty header.
\<close>

definition http_NewRequest :: "env \<Rightarrow> string \<Rightarrow> string \<Rightarrow> string \<Rightarrow> error + Request" where
  "http_NewRequest e method url payload =
     (case url_Parse e url of
        Inl err \<Rightarrow> Inl err
      | Inr u \<Rightarrow> Inr \<lparr>Method = method, URL = u, Header = Map.empty, ReqBody = payload\<rparr>)"

text \<open>\<open>req.Header.Set\<close>: the key's values are replaced by the one value.\<close>

definition Header_Set :: "Request \<Rightarrow> string \<Rightarrow> string \<Rightarrow> Request" where
  "Header_Set req k v = req\<lparr>Header := (Header req)(k \<mapsto> [v])\<rparr>"

text \<open>
  The fetch, in the order of the source: build the request (return on error), set the
  header, send (return on error), read the body (return on error), decode (return on
  error), and build the token from the decoded \<open>AccessToken\<close> and the clock as it stands
  then. The world that comes back has the counter raised and, once the request is handed
  to \<open>client.Do\<close>, the request logged and the clock advanced by the time the exchange took.
\<close>

definition generateAccessToken ::
  "env \<Rightarrow> string \<Rightarrow> string \<Rightarrow> string \<Rightarrow> world \<Rightarrow> (error + AccessToken) \<times> world" where
  "generateAccessToken e clientID clientSecret uaaUrl w0 =
     (let w = w0\<lparr>fetch_calls := fetch_calls w0 + 1\<rparr>;
          url = uaaUrl @ ''/oauth/token?grant_type=client_credentials'';
          payload = ''''
      in case http_NewRequest e ''POST'' url payload of
           Inl err \<Rightarrow> (Inl err, w)
         | Inr req0 \<Rightarrow>
             (let encodedCredential = base64_EncodeToString (clientID @ '':'' @ clientSecret);
                  authHeader = ''Basic '' @ encodedCredential;
                  req = Header_Set req0 ''Authorization'' authHeader;
                  (took, res) = client_Do e w req;
                  w' = w\<lparr>clock := clock w + int took, sent := sent w @ [req]\<rparr>
              in case res of
                   Inl err \<Rightarrow> (Inl err, w')
                 | Inr resp \<Rightarrow>
                     (case Body resp of
                        Inl err \<Rightarrow> (Inl err, w')
                      | Inr body \<Rightarrow>
                          (case json_Unmarshal e body AccessTokenResponse_zero of
                             Inl err \<Rightarrow> (Inl err, w')
                           | Inr tokenResp \<Rightarrow>
                               (Inr \<lparr>Value = AccessToken tokenResp,
                                     ExpiresAt = Time_Add (time_Now w') Hour\<rparr>, w')))))"

subsection \<open>\<open>NewAccessTokenManager\<close> and \<open>GetAccessToken\<close>\<close>

definition NewAccessTokenManager :: AccessTokenManager where
  "NewAccessTokenManager = \<lparr>mutex = False, tokenCache = Map.empty\<rparr>"

text \<open>
  Lines 53 to 60, the path taken when the cache has nothing valid: one call of the fetch;
  on an error the empty string and the error, the manager as it was; otherwise the new
  token is stored under the client identifier and its value returned.
\<close>

definition GetAccessToken_refresh ::
  "env \<Rightarrow> string \<Rightarrow> string \<Rightarrow> string \<Rightarrow> AccessTokenManager \<times> world
     \<Rightarrow> (string \<times> error option) \<times> AccessTokenManager \<times> world" where
  "GetAccessToken_refresh e clientID clientSecret uaaUrl s =
     (case s of (tm, w) \<Rightarrow>
        (case generateAccessToken e clientID clientSecret uaaUrl w of
           (Inl err, w') \<Rightarrow> (('''', Some err), tm, w')
         | (Inr newToken, w') \<Rightarrow>
             ((Value newToken, None),
              tm\<lparr>tokenCache := (tokenCache tm)(clientID \<mapsto> newToken)\<rparr>, w')))"

text \<open>
  The body of \<open>GetAccessToken\<close> between \<open>Lock\<close> and the deferred \<open>Unlock\<close>: the
  test of line 49 (the key is in the map, and now is before the entry's expiry) and the
  two ways on. The result is Go's pair of a string and an error, with the manager and the
  world as they are left.
\<close>

definition GetAccessToken_body ::
  "env \<Rightarrow> string \<Rightarrow> string \<Rightarrow> string \<Rightarrow> AccessTokenManager \<times> world
     \<Rightarrow> (string \<times> error option) \<times> AccessTokenManager \<times> world" where
  "GetAccessToken_body e clientID clientSecret uaaUrl s =
     (case s of (tm, w) \<Rightarrow>
        (case tokenCache tm clientID of
           Some token \<Rightarrow>
             if Time_Before (time_Now w) (ExpiresAt token)
             then ((Value token, None), tm, w)
             else GetAccessToken_refresh e clientID clientSecret uaaUrl (tm, w)
         | None \<Rightarrow> GetAccessToken_refresh e clientID clientSecret uaaUrl (tm, w)))"

text \<open>
  \<open>GetAccessToken\<close>: \<open>Lock\<close> on a mutex that is held blocks, and in a run of one call
  after the other nothing would release it, so the call does not return (\<open>None\<close>);
  otherwise the body runs with the mutex held and every return path releases it.
\<close>

definition GetAccessToken ::
  "env \<Rightarrow> string \<Rightarrow> string \<Rightarrow> string \<Rightarrow> AccessTokenManager \<times> world
     \<Rightarrow> ((string \<times> error option) \<times> AccessTokenManager \<times> world) option" where
  "GetAccessToken e clientID clientSecret uaaUrl s =
     (case s of (tm, w) \<Rightarrow>
        if mutex tm then None
        else (case GetAccessToken_body e clientID clientSecret uaaUrl (tm\<lparr>mutex := True\<rparr>, w) of
                (r, tm', w') \<Rightarrow> Some (r, tm'\<lparr>mutex := False\<rparr>, w')))"

subsection \<open>A lifetime of calls\<close>

text \<open>
  The manager lives through a sequence of calls. Between two calls the clock moves on by
  some time, never back; a call is the pause before it and its three arguments.
\<close>

type_synonym call = "nat \<times> string \<times> string \<times> string"

fun GetAccessToken_calls ::
  "env \<Rightarrow> call list \<Rightarrow> AccessTokenManager \<times> world \<Rightarrow> (AccessTokenManager \<times> world) option" where
  "GetAccessToken_calls e [] s = Some s"
| "GetAccessToken_calls e ((pause, clientID, clientSecret, uaaUrl) # cs) (tm, w) =
     (case GetAccessToken e clientID clientSecret uaaUrl (tm, w\<lparr>clock := clock w + int pause\<rparr>) of
        None \<Rightarrow> None
      | Some (r, s') \<Rightarrow> GetAccessToken_calls e cs s')"

subsection \<open>Notions used in the statements\<close>

text \<open>
  The cache has nothing valid for a client: no entry, or an entry whose expiry is not
  strictly after the clock.
\<close>

definition no_valid_entry :: "AccessTokenManager \<Rightarrow> string \<Rightarrow> world \<Rightarrow> bool" where
  "no_valid_entry tm clientID w \<longleftrightarrow>
     (case tokenCache tm clientID of
        None \<Rightarrow> True
      | Some token \<Rightarrow> \<not> clock w < ExpiresAt token)"

text \<open>
  The request of a client-credentials exchange to the parsed URL \<open>u\<close>, as the method,
  header and body are to be.
\<close>

definition token_request :: "string \<Rightarrow> string \<Rightarrow> url_URL \<Rightarrow> Request" where
  "token_request clientID clientSecret u =
     \<lparr>Method = ''POST'',
      URL = u,
      Header = [''Authorization'' \<mapsto>
                  [''Basic '' @ base64_EncodeToString (clientID @ '':'' @ clientSecret)]],
      ReqBody = ''''\<rparr>"

text \<open>
  The world on entry to the fetch (the counter raised), and after an exchange that took
  \<open>took\<close> nanoseconds with request \<open>req\<close>.
\<close>

definition entered :: "world \<Rightarrow> world" where
  "entered w = w\<lparr>fetch_calls := fetch_calls w + 1\<rparr>"

definition exchanged :: "world \<Rightarrow> nat \<Rightarrow> Request \<Rightarrow> world" where
  "exchanged w took req = (entered w)\<lparr>clock := clock w + int took, sent := sent w @ [req]\<rparr>"

text \<open>
  The same surroundings with another status code on every response, and with another
  \<open>expires_in\<close> in every decoded body.
\<close>

definition with_status :: "int \<Rightarrow> env \<Rightarrow> env" where
  "with_status code e =
     e\<lparr>client_Do := (\<lambda>w req. case client_Do e w req of
          (took, res) \<Rightarrow> (took, map_sum id (\<lambda>resp. resp\<lparr>StatusCode := code\<rparr>) res))\<rparr>"

definition with_expires_in :: "int \<Rightarrow> env \<Rightarrow> env" where
  "with_expires_in n e =
     e\<lparr>json_Unmarshal := (\<lambda>body z.
          map_sum id (\<lambda>tokenResp. tokenResp\<lparr>ExpiresIn := n\<rparr>) (json_Unmarshal e body z))\<rparr>"

subsection \<open>Stand-ins for the surroundings\<close>

text \<open>
  A parser for concrete runs, for strings of the shape \<open>scheme://host/path?query\<close>: the
  scheme is lower-cased, the rest is cut at the first slash and the first question mark;
  a string that begins with a colon does not parse (\<open>missing protocol scheme\<close>).
\<close>

definition lower :: "char \<Rightarrow> char" where
  "lower c =
     (case map_of (zip ''ABCDEFGHIJKLMNOPQRSTUVWXYZ'' ''abcdefghijklmnopqrstuvwxyz'') c of
        None \<Rightarrow> c
      | Some l \<Rightarrow> l)"

definition stub_Parse :: "string \<Rightarrow> error + url_URL" where
  "stub_Parse rawURL =
     (if take 1 rawURL = '':'' then Inl (Error ''missing protocol scheme'')
      else
        (let scheme = takeWhile (\<lambda>c. c \<noteq> CHR '':'') rawURL;
             rest = drop 3 (dropWhile (\<lambda>c. c \<noteq> CHR '':'') rawURL);
             host = takeWhile (\<lambda>c. c \<noteq> CHR ''/'') rest;
             pathq = dropWhile (\<lambda>c. c \<noteq> CHR ''/'') rest
         in Inr \<lparr>Scheme = map lower scheme, Host = host,
                 Path = takeWhile (\<lambda>c. c \<noteq> CHR ''?'') pathq,
                 RawQuery = drop 1 (dropWhile (\<lambda>c. c \<noteq> CHR ''?'') pathq),
                 Fragment = ''''\<rparr>))"

text \<open>The token URL of the endpoint \<open>https://uaa.example\<close>, parsed.\<close>

definition uaa_token_url :: url_URL where
  "uaa_token_url =
     \<lparr>Scheme = ''https'', Host = ''uaa.example'', Path = ''/oauth/token'',
      RawQuery = ''grant_type=client_credentials'', Fragment = ''''\<rparr>"

text \<open>
  A token endpoint for concrete runs: every exchange takes \<open>took\<close> nanoseconds and ends
  in \<open>reply\<close>, and every body decodes to \<open>decoded\<close>.
\<close>

definition stub_env :: "nat \<Rightarrow> error + Response \<Rightarrow> error + AccessTokenResponse \<Rightarrow> env" where
  "stub_env took reply decoded =
     \<lparr>url_Parse = stub_Parse,
      client_Do = (\<lambda>w req. (took, reply)),
      json_Unmarshal = (\<lambda>body z. decoded)\<rparr>"

definition ok_reply :: "error + Response" where
  "ok_reply = Inr \<lparr>StatusCode = 200, Body = Inr ''{...}''\<rparr>"

definition decoded_token :: "string \<Rightarrow> int \<Rightarrow> error + AccessTokenResponse" where
  "decoded_token tok secs =
     Inr (AccessTokenResponse_zero\<lparr>AccessToken := tok, TokenType := ''bearer'', ExpiresIn := secs\<rparr>)"

definition world0 :: world where
  "world0 = \<lparr>clock = 0, sent = [], fetch_calls = 0\<rparr>"

definition Minute :: Duration where
  "Minute = 60 * 1000 * 1000 * 1000"

definition endpoint :: env where
  "endpoint = stub_env 250 ok_reply (decoded_token ''abc123'' 60)"

definition refusing :: env where
  "refusing = stub_env 250 (Inl (Error ''connection refused'')) (decoded_token ''abc123'' 60)"

definition unauthorized :: env where
  "unauthorized =
     stub_env 250 (Inr \<lparr>StatusCode = 401, Body = Inr ''{}''\<rparr>) (Inr AccessTokenResponse_zero)"

definition stale_manager :: AccessTokenManager where
  "stale_manager =
     \<lparr>mutex = False, tokenCache = [''client-1'' \<mapsto> \<lparr>Value = ''old'', ExpiresAt = 100\<rparr>]\<rparr>"

definition at_time :: "Time \<Rightarrow> world" where
  "at_time t = \<lparr>clock = t, sent = [], fetch_calls = 0\<rparr>"

section \<open>Properties\<close>

subsection \<open>The fetch\<close>

lemma generateAccessToken_counts:
  "fetch_calls (snd (generateAccessToken e clientID clientSecret uaaUrl w)) = fetch_calls w + 1"
  by (simp add: generateAccessToken_def Let_def split: sum.splits prod.splits)

lemma generateAccessToken_unbuilt:
  assumes "url_Parse e (uaaUrl @ ''/oauth/token?grant_type=client_credentials'') = Inl err"
  shows "generateAccessToken e clientID clientSecret uaaUrl w = (Inl err, entered w)"
  using assms by (simp add: generateAccessToken_def http_NewRequest_def entered_def)

lemma generateAccessToken_built:
  assumes "url_Parse e (uaaUrl @ ''/oauth/token?grant_type=client_credentials'') = Inr u"
    and "client_Do e (entered w) (token_request clientID clientSecret u) = (took, res)"
  shows "generateAccessToken e clientID clientSecret uaaUrl w =
     ((case res of
         Inl err \<Rightarrow> Inl err
       | Inr resp \<Rightarrow>
          (case Body resp of
             Inl err \<Rightarrow> Inl err
           | Inr body \<Rightarrow>
              (case json_Unmarshal e body AccessTokenResponse_zero of
                 Inl err \<Rightarrow> Inl err
               | Inr tokenResp \<Rightarrow>
                   Inr \<lparr>Value = AccessToken tokenResp,
                        ExpiresAt = clock w + int took + Hour\<rparr>))),
      exchanged w took (token_request clientID clientSecret u))"
  using assms
  by (simp add: generateAccessToken_def http_NewRequest_def entered_def exchanged_def
      Header_Set_def token_request_def Time_Add_def time_Now_def split: sum.splits)

subsection \<open>The two paths of \<open>GetAccessToken\<close>\<close>

lemma GetAccessToken_hit:
  assumes "\<not> mutex tm" and "tokenCache tm clientID = Some token"
    and "clock w < ExpiresAt token"
  shows "GetAccessToken e clientID clientSecret uaaUrl (tm, w) = Some ((Value token, None), tm, w)"
  using assms
  by (simp add: GetAccessToken_def GetAccessToken_body_def Time_Before_def time_Now_def)

lemma GetAccessToken_miss:
  assumes "\<not> mutex tm" and "no_valid_entry tm clientID w"
  shows "GetAccessToken e clientID clientSecret uaaUrl (tm, w) =
     Some (case generateAccessToken e clientID clientSecret uaaUrl w of
        (Inl err, w') \<Rightarrow> (('''', Some err), tm, w')
      | (Inr newToken, w') \<Rightarrow> ((Value newToken, None),
              tm\<lparr>tokenCache := (tokenCache tm)(clientID \<mapsto> newToken)\<rparr>, w'))"
  using assms
  by (auto simp add: GetAccessToken_def GetAccessToken_body_def GetAccessToken_refresh_def
      Time_Before_def time_Now_def no_valid_entry_def split: option.splits prod.splits sum.splits)

subsection \<open>The encoding\<close>

lemma base64_rfc4648:
  "base64_EncodeToString '''' = ''''"
  "base64_EncodeToString ''f'' = ''Zg==''"
  "base64_EncodeToString ''fo'' = ''Zm8=''"
  "base64_EncodeToString ''foo'' = ''Zm9v''"
  "base64_EncodeToString ''foob'' = ''Zm9vYg==''"
  "base64_EncodeToString ''fooba'' = ''Zm9vYmE=''"
  "base64_EncodeToString ''foobar'' = ''Zm9vYmFy''"
  by (simp_all add: base64_EncodeToString_def sextet_def encodeStd_def)

lemma base64_Encode_length: "length (base64_Encode bs) = 4 * ((length bs + 2) div 3)"
proof (induction bs rule: base64_Encode.induct)
  case (1 b0 b1 b2 src)
  have "(length src + 5) div 3 = Suc ((length src + 2) div 3)"
    by presburger
  with 1 show ?case
    by (simp add: Let_def add.commute)
qed (simp_all add: Let_def)

lemma generateAccessToken_with_status:
  "generateAccessToken (with_status code e) clientID clientSecret uaaUrl w
     = generateAccessToken e clientID clientSecret uaaUrl w"
  by (simp add: generateAccessToken_def with_status_def http_NewRequest_def Let_def 
       split: option.splits sum.splits prod.splits)

lemma generateAccessToken_with_expires_in:
  "generateAccessToken (with_expires_in n e) clientID clientSecret uaaUrl w
     = generateAccessToken e clientID clientSecret uaaUrl w"
  by (simp add: generateAccessToken_def with_expires_in_def http_NewRequest_def Let_def 
       split: option.splits sum.splits prod.splits)

subsection \<open>What a call and a lifetime of calls leave behind\<close>

lemma generateAccessToken_clock:
  "clock w \<le> clock (snd (generateAccessToken e clientID clientSecret uaaUrl w))"
  by (simp add: generateAccessToken_def Let_def split: sum.splits prod.splits)

lemma valid_or_not:
  "no_valid_entry tm clientID w \<or>
   (\<exists>token. tokenCache tm clientID = Some token \<and> clock w < ExpiresAt token)"
  by (simp add: no_valid_entry_def split: option.splits)

lemma GetAccessToken_blocked:
  "mutex tm \<Longrightarrow> GetAccessToken e clientID clientSecret uaaUrl (tm, w) = None"
  by (simp add: GetAccessToken_def)

lemma GetAccessToken_returns:
  assumes "\<not> mutex tm"
  shows "\<exists>r tm' w'. GetAccessToken e clientID clientSecret uaaUrl (tm, w) = Some (r, tm', w')"
  using assms by (simp add: GetAccessToken_def split: prod.splits)

lemma GetAccessToken_effect:
  assumes "GetAccessToken e clientID clientSecret uaaUrl (tm, w) = Some (r, tm', w')"
  shows "\<not> mutex tm' \<and> clock w \<le> clock w'
     \<and> dom (tokenCache tm) \<subseteq> dom (tokenCache tm')
     \<and> dom (tokenCache tm') \<subseteq> insert clientID (dom (tokenCache tm))
     \<and> (\<forall>k. k \<noteq> clientID \<longrightarrow> tokenCache tm' k = tokenCache tm k)"
proof -
  have free: "\<not> mutex tm"
    using assms GetAccessToken_blocked [of tm e clientID clientSecret uaaUrl w] by auto
  from valid_or_not [of tm clientID w] show ?thesis
  proof
    assume miss: "no_valid_entry tm clientID w"
    obtain res w1 where g: "generateAccessToken e clientID clientSecret uaaUrl w = (res, w1)"
      by (cases "generateAccessToken e clientID clientSecret uaaUrl w")
    have "clock w \<le> clock w1"
      using generateAccessToken_clock [of w e clientID clientSecret uaaUrl] g by simp
    with GetAccessToken_miss [OF free miss, of e clientSecret uaaUrl] assms g free
    show ?thesis by (cases res) auto
  next
    assume "\<exists>token. tokenCache tm clientID = Some token \<and> clock w < ExpiresAt token"
    then obtain token where "tokenCache tm clientID = Some token" "clock w < ExpiresAt token"
      by blast
    from GetAccessToken_hit [OF free this, of e clientSecret uaaUrl] assms free
    show ?thesis by auto
  qed
qed

lemma GetAccessToken_keeps_valid:
  assumes "GetAccessToken e clientID clientSecret uaaUrl (tm, w) = Some (r, tm', w')"
    and "tokenCache tm k = Some token" and "clock w' < ExpiresAt token"
  shows "tokenCache tm' k = Some token"
proof (cases "k = clientID")
  case False
  with GetAccessToken_effect [OF assms(1)] assms(2) show ?thesis by simp
next
  case True
  have free: "\<not> mutex tm"
    using assms(1) GetAccessToken_blocked [of tm e clientID clientSecret uaaUrl w] by auto
  have "clock w \<le> clock w'"
    using GetAccessToken_effect [OF assms(1)] by simp
  with assms(3) have "clock w < ExpiresAt token" by simp
  from GetAccessToken_hit [OF free _ this, of clientID e clientSecret uaaUrl] assms(1,2) True
  show ?thesis by simp
qed

lemma GetAccessToken_calls_effect:
  assumes "\<not> mutex tm"
  shows "\<exists>tm' w'. GetAccessToken_calls e cs (tm, w) = Some (tm', w')
     \<and> \<not> mutex tm' \<and> clock w \<le> clock w'
     \<and> dom (tokenCache tm) \<subseteq> dom (tokenCache tm')
     \<and> dom (tokenCache tm') \<subseteq> dom (tokenCache tm) \<union> (fst \<circ> snd) ` set cs"
  using assms
proof (induction cs arbitrary: tm w)
  case Nil
  then show ?case by simp
next
  case (Cons c cs)
  obtain pause clientID clientSecret uaaUrl where c: "c = (pause, clientID, clientSecret, uaaUrl)"
    by (cases c)
  let ?w = "w\<lparr>clock := clock w + int pause\<rparr>"
  from GetAccessToken_returns [OF Cons.prems, of e clientID clientSecret uaaUrl ?w]
  obtain r tm1 w1 where
    step: "GetAccessToken e clientID clientSecret uaaUrl (tm, ?w) = Some (r, tm1, w1)"
    by blast
  note eff = GetAccessToken_effect [OF step]
  from eff have "\<not> mutex tm1" by simp
  from Cons.IH [OF this, of w1] obtain tm' w' where
    rest: "GetAccessToken_calls e cs (tm1, w1) = Some (tm', w')"
      "\<not> mutex tm'" "clock w1 \<le> clock w'"
      "dom (tokenCache tm1) \<subseteq> dom (tokenCache tm')"
      "dom (tokenCache tm') \<subseteq> dom (tokenCache tm1) \<union> (fst \<circ> snd) ` set cs"
    by blast
  have "GetAccessToken_calls e (c # cs) (tm, w) = Some (tm', w')"
    using c step rest(1) by simp
  moreover have "clock w \<le> clock w'"
    using eff rest(3) by simp
  moreover have "dom (tokenCache tm) \<subseteq> dom (tokenCache tm')"
    using eff rest(4) by blast
  moreover have "dom (tokenCache tm') \<subseteq> dom (tokenCache tm) \<union> (fst \<circ> snd) ` set (c # cs)"
    using eff rest(5) c by auto
  ultimately show ?case using rest(2) by blast
qed

lemma GetAccessToken_calls_keep_valid:
  assumes "GetAccessToken_calls e cs (tm, w) = Some (tm', w')"
    and "tokenCache tm k = Some token" and "clock w' < ExpiresAt token"
  shows "tokenCache tm' k = Some token"
  using assms
proof (induction cs arbitrary: tm w)
  case Nil
  then show ?case by simp
next
  case (Cons c cs)
  obtain pause clientID clientSecret uaaUrl where c: "c = (pause, clientID, clientSecret, uaaUrl)"
    by (cases c)
  let ?w = "w\<lparr>clock := clock w + int pause\<rparr>"
  from Cons.prems(1) c obtain r tm1 w1 where
    step: "GetAccessToken e clientID clientSecret uaaUrl (tm, ?w) = Some (r, tm1, w1)"
    and rest: "GetAccessToken_calls e cs (tm1, w1) = Some (tm', w')"
    by (auto split: option.splits)
  have "\<not> mutex tm1"
    using GetAccessToken_effect [OF step] by simp
  from GetAccessToken_calls_effect [OF this, of e cs w1] rest
  have "clock w1 \<le> clock w'" by auto
  with Cons.prems(3) have "clock w1 < ExpiresAt token" by simp
  from GetAccessToken_keeps_valid [OF step Cons.prems(2) this]
  have "tokenCache tm1 k = Some token" .
  from Cons.IH [OF rest this Cons.prems(3)] show ?case .
qed

lemma GetAccessToken_calls_append:
  "GetAccessToken_calls e (cs1 @ cs2) s =
     (case GetAccessToken_calls e cs1 s of
        None \<Rightarrow> None
      | Some s' \<Rightarrow> GetAccessToken_calls e cs2 s')"
proof (induction cs1 arbitrary: s)
  case Nil
  show ?case by simp
next
  case (Cons c cs1)
  obtain pause clientID clientSecret uaaUrl where c: "c = (pause, clientID, clientSecret, uaaUrl)"
    by (cases c)
  obtain tm w where s: "s = (tm, w)"
    by (cases s)
  show ?case
    by (simp add: c s Cons.IH split: option.splits)
qed

subsection \<open>The stand-in parser at the inputs of the concrete runs\<close>

lemma stub_Parse_uaa [simp]:
  "stub_Parse ''https://uaa.example/oauth/token?grant_type=client_credentials'' = Inr uaa_token_url"
  by (simp add: stub_Parse_def lower_def uaa_token_url_def)

lemma stub_Parse_colon [simp]:
  "stub_Parse (CHR '':'' # s) = Inl (Error ''missing protocol scheme'')"
  by (simp add: stub_Parse_def)

text \<open>The unfolding of the stand-ins, for concrete runs.\<close>

lemmas stub_simps = stub_env_def ok_reply_def decoded_token_def world0_def endpoint_def
  refusing_def unauthorized_def stale_manager_def at_time_def AccessTokenResponse_zero_def
  entered_def exchanged_def

subsection \<open>Claims about one call\<close>

text \<open>
  Claim C1 (cache hit). Whenever the mutex is free and the cache holds an entry for the
  client identifier whose expiry is strictly after the clock, \<open>GetAccessToken\<close> returns
  that entry's value with a nil error, and the manager and the world are exactly as before:
  the cache is unchanged, the fetch counter and the log of sent requests have not moved.
\<close>

theorem cache_hit:
  assumes "\<not> mutex tm" and "tokenCache tm clientID = Some token"
    and "clock w < ExpiresAt token"
  shows "GetAccessToken e clientID clientSecret uaaUrl (tm, w) = Some ((Value token, None), tm, w)"
  using assms by (rule GetAccessToken_hit)

theorem cache_hit_witness:
  "GetAccessToken refusing ''client-1'' ''s3cr3t'' ''https://uaa.example'' (stale_manager, at_time 99)
     = Some ((''old'', None), stale_manager, at_time 99)"
  using cache_hit [of stale_manager "''client-1''" "\<lparr>Value = ''old'', ExpiresAt = 100\<rparr>"
      "at_time 99" refusing "''s3cr3t''" "''https://uaa.example''"]
  by (simp add: stale_manager_def at_time_def)

text \<open>
  Claim C3 (a failed fetch does not touch the cache). Whenever the cache has nothing valid
  for the client identifier and the fetch that \<open>GetAccessToken\<close> then makes fails with
  \<open>err\<close>, the call returns \<open>err\<close> and the manager is the same as before, the old
  (expired) entry for that identifier included.
\<close>

theorem fetch_error_keeps_cache:
  assumes "\<not> mutex tm" and "no_valid_entry tm clientID w"
    and "generateAccessToken e clientID clientSecret uaaUrl w = (Inl err, w')"
  shows "\<exists>v. GetAccessToken e clientID clientSecret uaaUrl (tm, w) = Some ((v, Some err), tm, w')"
  using GetAccessToken_miss [OF assms(1,2), of e clientSecret uaaUrl] assms(3) by simp

theorem fetch_error_keeps_cache_witness:
  "\<exists>v. GetAccessToken refusing ''client-1'' ''s3cr3t'' ''https://uaa.example'' (stale_manager, at_time 100)
     = Some ((v, Some (Error ''connection refused'')), stale_manager,
         exchanged (at_time 100) 250 (token_request ''client-1'' ''s3cr3t'' uaa_token_url))"
proof -
  have free: "\<not> mutex stale_manager"
    by (simp add: stale_manager_def)
  have stale: "no_valid_entry stale_manager ''client-1'' (at_time 100)"
    by (simp add: no_valid_entry_def stale_manager_def at_time_def)
  have fails: "generateAccessToken refusing ''client-1'' ''s3cr3t'' ''https://uaa.example'' (at_time 100)
     = (Inl (Error ''connection refused''),
        exchanged (at_time 100) 250 (token_request ''client-1'' ''s3cr3t'' uaa_token_url))"
    by (simp add: generateAccessToken_built [where took = 250 and res = "Inl (Error ''connection refused'')" and u = uaa_token_url]
        refusing_def stub_env_def)
  from fetch_error_keeps_cache [OF free stale fails] show ?thesis .
qed

text \<open>
  Claim C9 (empty token on error). Whenever the fetch made by \<open>GetAccessToken\<close> fails,
  the pair that the call returns is the empty string together with the fetch's (non-nil)
  error.
\<close>

theorem fetch_error_empty_token:
  assumes "\<not> mutex tm" and "no_valid_entry tm clientID w"
    and "fst (generateAccessToken e clientID clientSecret uaaUrl w) = Inl err"
  shows "map_option fst (GetAccessToken e clientID clientSecret uaaUrl (tm, w)) = Some ('''', Some err)"
  using GetAccessToken_miss [OF assms(1,2), of e clientSecret uaaUrl] assms(3)
  by (cases "generateAccessToken e clientID clientSecret uaaUrl w") simp

theorem fetch_error_empty_token_witness:
  "map_option fst (GetAccessToken unauthorized ''client-1'' ''s3cr3t'' '':uaa.example''
      (NewAccessTokenManager, world0))
     = Some ('''', Some (Error ''missing protocol scheme''))"
proof -
  have free: "\<not> mutex NewAccessTokenManager"
    by (simp add: NewAccessTokenManager_def)
  have empty: "no_valid_entry NewAccessTokenManager ''client-1'' world0"
    by (simp add: no_valid_entry_def NewAccessTokenManager_def)
  have fails: "fst (generateAccessToken unauthorized ''client-1'' ''s3cr3t'' '':uaa.example'' world0)
     = Inl (Error ''missing protocol scheme'')"
    by (simp add: generateAccessToken_unbuilt [where err = "Error ''missing protocol scheme''"]
        unauthorized_def stub_env_def)
  from fetch_error_empty_token [OF free empty fails] show ?thesis .
qed

text \<open>
  Claim C4 (miss path). Whenever the cache has no entry for the client identifier, or one
  whose expiry is not strictly after the clock, \<open>GetAccessToken\<close> returns after exactly
  one entry into the fetch (the world it leaves is the one that single fetch leaves, the
  counter one higher); and when that fetch succeeds with \<open>newToken\<close>, the call returns
  \<open>newToken\<close>'s value with a nil error and the cache maps the identifier to
  \<open>newToken\<close>, replacing what was there.
\<close>

theorem miss_fetches_once:
  assumes "\<not> mutex tm" and "no_valid_entry tm clientID w"
  shows "\<exists>r tm' w'. GetAccessToken e clientID clientSecret uaaUrl (tm, w) = Some (r, tm', w')
     \<and> w' = snd (generateAccessToken e clientID clientSecret uaaUrl w)
     \<and> fetch_calls w' = fetch_calls w + 1
     \<and> (\<forall>newToken. fst (generateAccessToken e clientID clientSecret uaaUrl w) = Inr newToken
           \<longrightarrow> r = (Value newToken, None)
             \<and> tm' = tm\<lparr>tokenCache := (tokenCache tm)(clientID \<mapsto> newToken)\<rparr>)"
proof (cases "generateAccessToken e clientID clientSecret uaaUrl w")
  case (Pair res w1)
  have cnt: "fetch_calls w1 = fetch_calls w + 1"
    using generateAccessToken_counts [of e clientID clientSecret uaaUrl w] Pair by simp
  show ?thesis
    using GetAccessToken_miss [OF assms, of e clientSecret uaaUrl] Pair cnt
    by (cases res) simp_all
qed

theorem miss_fetches_once_witness:
  "GetAccessToken endpoint ''client-1'' ''s3cr3t'' ''https://uaa.example'' (stale_manager, at_time 100)
     = Some ((''abc123'', None),
         \<lparr>mutex = False, tokenCache = [''client-1'' \<mapsto> \<lparr>Value = ''abc123'', ExpiresAt = 350 + Hour\<rparr>]\<rparr>,
         \<lparr>clock = 350,
          sent = [token_request ''client-1'' ''s3cr3t'' uaa_token_url],
          fetch_calls = 1\<rparr>)"
proof -
  have free: "\<not> mutex stale_manager"
    by (simp add: stale_manager_def)
  have stale: "no_valid_entry stale_manager ''client-1'' (at_time 100)"
    by (simp add: no_valid_entry_def stale_manager_def at_time_def)
  have fetched: "generateAccessToken endpoint ''client-1'' ''s3cr3t'' ''https://uaa.example'' (at_time 100)
     = (Inr \<lparr>Value = ''abc123'', ExpiresAt = 350 + Hour\<rparr>,
        \<lparr>clock = 350,
         sent = [token_request ''client-1'' ''s3cr3t'' uaa_token_url],
         fetch_calls = 1\<rparr>)"
    by (simp add: generateAccessToken_built [where took = 250 and res = ok_reply and u = uaa_token_url] stub_simps)
  from miss_fetches_once [OF free stale, of endpoint "''s3cr3t''" "''https://uaa.example''"]
  show ?thesis
    by (simp add: fetched) (simp add: stale_manager_def)
qed

subsection \<open>Claims about the fetch\<close>

text \<open>
  Claim C5 (request construction). The fetch does not issue a request for
  every endpoint URL: \<open>http.NewRequest\<close> parses the endpoint URL followed by
  \<open>/oauth/token?grant_type=client_credentials\<close>, and when that string does not parse the
  fetch returns the parser's error, hands nothing to \<open>client.Do\<close> and leaves the log of
  sent requests as it was. When the string parses, the fetch hands exactly one request to
  \<open>client.Do\<close>: a \<open>POST\<close> request whose URL is the parsed form of that string, whose
  body is empty and whose \<open>Authorization\<close> header is \<open>Basic\<close>, a space, and the
  standard base64 encoding of identifier, colon, secret. The log grows by exactly this
  request, the clock by the time its exchange takes, and what the transport answers to
  this request decides the fetch: its error is the fetch's error, and its response goes on
  to be read and decoded.
\<close>

theorem request_construction:
  "(\<forall>err. url_Parse e (uaaUrl @ ''/oauth/token?grant_type=client_credentials'') = Inl err \<longrightarrow>
       generateAccessToken e clientID clientSecret uaaUrl w
         = (Inl err, w\<lparr>fetch_calls := fetch_calls w + 1\<rparr>))
   \<and> (\<forall>u took res.
         url_Parse e (uaaUrl @ ''/oauth/token?grant_type=client_credentials'') = Inr u
       \<and> client_Do e (w\<lparr>fetch_calls := fetch_calls w + 1\<rparr>)
             \<lparr>Method = ''POST'',
              URL = u,
              Header = [''Authorization'' \<mapsto>
                          [''Basic '' @ base64_EncodeToString (clientID @ '':'' @ clientSecret)]],
              ReqBody = ''''\<rparr>
           = (took, res)
       \<longrightarrow> sent (snd (generateAccessToken e clientID clientSecret uaaUrl w))
             = sent w @
                 [\<lparr>Method = ''POST'',
                   URL = u,
                   Header = [''Authorization'' \<mapsto>
                               [''Basic '' @ base64_EncodeToString (clientID @ '':'' @ clientSecret)]],
                   ReqBody = ''''\<rparr>]
         \<and> clock (snd (generateAccessToken e clientID clientSecret uaaUrl w)) = clock w + int took
         \<and> fst (generateAccessToken e clientID clientSecret uaaUrl w)
             = (case res of
                  Inl err \<Rightarrow> Inl err
                | Inr resp \<Rightarrow>
                    (case Body resp of
                       Inl err \<Rightarrow> Inl err
                     | Inr body \<Rightarrow>
                         (case json_Unmarshal e body AccessTokenResponse_zero of
                            Inl err \<Rightarrow> Inl err
                          | Inr tokenResp \<Rightarrow>
                              Inr \<lparr>Value = AccessToken tokenResp,
                                   ExpiresAt = clock w + int took + Hour\<rparr>))))"
  (is "?rejected \<and> ?issued")
proof
  show ?rejected
  proof (intro allI impI)
    fix err
    assume "url_Parse e (uaaUrl @ ''/oauth/token?grant_type=client_credentials'') = Inl err"
    from generateAccessToken_unbuilt [OF this]
    show "generateAccessToken e clientID clientSecret uaaUrl w
         = (Inl err, w\<lparr>fetch_calls := fetch_calls w + 1\<rparr>)"
      by (simp add: entered_def)
  qed
  show ?issued
  proof (intro allI impI, elim conjE)
    fix u took res
    let ?req = "\<lparr>Method = ''POST'',
              URL = u,
              Header = [''Authorization'' \<mapsto>
                          [''Basic '' @ base64_EncodeToString (clientID @ '':'' @ clientSecret)]],
              ReqBody = ''''\<rparr>"
    assume parsed: "url_Parse e (uaaUrl @ ''/oauth/token?grant_type=client_credentials'') = Inr u"
      and "client_Do e (w\<lparr>fetch_calls := fetch_calls w + 1\<rparr>) ?req = (took, res)"
    then have "client_Do e (entered w) (token_request clientID clientSecret u) = (took, res)"
      by (simp add: entered_def token_request_def)
    from generateAccessToken_built [OF parsed this]
    show "sent (snd (generateAccessToken e clientID clientSecret uaaUrl w)) = sent w @ [?req]
         \<and> clock (snd (generateAccessToken e clientID clientSecret uaaUrl w)) = clock w + int took
         \<and> fst (generateAccessToken e clientID clientSecret uaaUrl w)
             = (case res of
                  Inl err \<Rightarrow> Inl err
                | Inr resp \<Rightarrow>
                    (case Body resp of
                       Inl err \<Rightarrow> Inl err
                     | Inr body \<Rightarrow>
                         (case json_Unmarshal e body AccessTokenResponse_zero of
                            Inl err \<Rightarrow> Inl err
                          | Inr tokenResp \<Rightarrow>
                              Inr \<lparr>Value = AccessToken tokenResp,
                                   ExpiresAt = clock w + int took + Hour\<rparr>)))"
      by (simp add: exchanged_def entered_def token_request_def)
  qed
qed

text \<open>
  A run of the statement: the endpoint \<open>HTTPS://uaa.example\<close> for the client
  \<open>user\<close> with secret \<open>pass\<close>. The request goes out with the scheme as the parser
  leaves it, and the endpoint's answer is the fetch's result.
\<close>

theorem request_construction_witness:
  "sent (snd (generateAccessToken endpoint ''user'' ''pass'' ''HTTPS://uaa.example'' world0)) =
     [\<lparr>Method = ''POST'',
       URL = \<lparr>Scheme = ''https'', Host = ''uaa.example'', Path = ''/oauth/token'',
              RawQuery = ''grant_type=client_credentials'', Fragment = ''''\<rparr>,
       Header = [''Authorization'' \<mapsto> [''Basic dXNlcjpwYXNz'']],
       ReqBody = ''''\<rparr>]
   \<and> fst (generateAccessToken endpoint ''user'' ''pass'' ''HTTPS://uaa.example'' world0)
       = Inr \<lparr>Value = ''abc123'', ExpiresAt = 250 + Hour\<rparr>"
proof -
  let ?u = "\<lparr>Scheme = ''https'', Host = ''uaa.example'', Path = ''/oauth/token'',
              RawQuery = ''grant_type=client_credentials'', Fragment = ''''\<rparr>"
  have enc: "base64_EncodeToString ''user:pass'' = ''dXNlcjpwYXNz''"
    by (simp add: base64_EncodeToString_def sextet_def encodeStd_def)
  have parsed: "url_Parse endpoint (''HTTPS://uaa.example'' @ ''/oauth/token?grant_type=client_credentials'')
      = Inr ?u"
    by (simp add: endpoint_def stub_env_def stub_Parse_def lower_def)
  have reply: "client_Do endpoint (world0\<lparr>fetch_calls := fetch_calls world0 + 1\<rparr>)
             \<lparr>Method = ''POST'',
              URL = ?u,
              Header = [''Authorization'' \<mapsto>
                          [''Basic '' @ base64_EncodeToString (''user'' @ '':'' @ ''pass'')]],
              ReqBody = ''''\<rparr>
      = (250, ok_reply)"
    by (simp add: endpoint_def stub_env_def)
  note issued = request_construction [of endpoint "''HTTPS://uaa.example''" "''user''" "''pass''" world0,
      THEN conjunct2, rule_format, OF conjI, OF parsed reply]
  from issued have "sent (snd (generateAccessToken endpoint ''user'' ''pass'' ''HTTPS://uaa.example'' world0)) =
     [\<lparr>Method = ''POST'', URL = ?u,
       Header = [''Authorization'' \<mapsto> [''Basic dXNlcjpwYXNz'']],
       ReqBody = ''''\<rparr>]"
    by (simp add: enc world0_def)
  moreover from issued
  have "fst (generateAccessToken endpoint ''user'' ''pass'' ''HTTPS://uaa.example'' world0)
       = Inr \<lparr>Value = ''abc123'', ExpiresAt = 250 + Hour\<rparr>"
    by (simp add: stub_simps)
  ultimately show ?thesis
    by (rule conjI)
qed

text \<open>
  No request for every endpoint URL: at the endpoint \<open>:uaa.example\<close> the string does not
  parse, so although the transport at hand would answer any request with a token, the
  fetch returns the parser's error and no request has gone out; a transport that refuses
  every connection gives the very same fetch.
\<close>

theorem request_construction_counterexample:
  "fst (generateAccessToken endpoint ''user'' ''pass'' '':uaa.example'' world0)
     = Inl (Error ''missing protocol scheme'')
   \<and> sent (snd (generateAccessToken endpoint ''user'' ''pass'' '':uaa.example'' world0)) = []
   \<and> generateAccessToken refusing ''user'' ''pass'' '':uaa.example'' world0
     = generateAccessToken endpoint ''user'' ''pass'' '':uaa.example'' world0"
proof -
  have "url_Parse endpoint ('':uaa.example'' @ ''/oauth/token?grant_type=client_credentials'')
      = Inl (Error ''missing protocol scheme'')"
    by (simp add: endpoint_def stub_env_def)
  note answering = generateAccessToken_unbuilt [OF this, of "''user''" "''pass''" world0]
  have "url_Parse refusing ('':uaa.example'' @ ''/oauth/token?grant_type=client_credentials'')
      = Inl (Error ''missing protocol scheme'')"
    by (simp add: refusing_def stub_env_def)
  note refused = generateAccessToken_unbuilt [OF this, of "''user''" "''pass''" world0]
  from answering refused show ?thesis
    by (simp add: entered_def world0_def)
qed

text \<open>
  Claim C6 (no status-code validation). The fetch is the same whatever status code the
  responses carry. Whenever the request is built, the exchange gives a response, its body
  is read and decodes to \<open>tokenResp\<close>, the fetch succeeds with a token whose value is
  \<open>tokenResp\<close>'s \<open>AccessToken\<close> (the empty string included), with no condition on the
  status code. And the fetch returns an error exactly when the request cannot be built,
  the exchange fails, the body cannot be read, or the body does not decode.
\<close>

theorem no_status_code_check:
  "generateAccessToken (with_status code e) clientID clientSecret uaaUrl w
     = generateAccessToken e clientID clientSecret uaaUrl w
   \<and> (\<forall>u took resp body tokenResp.
         url_Parse e (uaaUrl @ ''/oauth/token?grant_type=client_credentials'') = Inr u
       \<and> client_Do e (entered w) (token_request clientID clientSecret u) = (took, Inr resp)
       \<and> Body resp = Inr body
       \<and> json_Unmarshal e body AccessTokenResponse_zero = Inr tokenResp
       \<longrightarrow> fst (generateAccessToken e clientID clientSecret uaaUrl w)
            = Inr \<lparr>Value = AccessToken tokenResp, ExpiresAt = clock w + int took + Hour\<rparr>)
   \<and> ((\<exists>err. fst (generateAccessToken e clientID clientSecret uaaUrl w) = Inl err) \<longleftrightarrow>
        (\<exists>err. url_Parse e (uaaUrl @ ''/oauth/token?grant_type=client_credentials'') = Inl err)
      \<or> (\<exists>u. url_Parse e (uaaUrl @ ''/oauth/token?grant_type=client_credentials'') = Inr u
          \<and> ((\<exists>err. snd (client_Do e (entered w) (token_request clientID clientSecret u)) = Inl err)
           \<or> (\<exists>resp err.
                 snd (client_Do e (entered w) (token_request clientID clientSecret u)) = Inr resp
               \<and> Body resp = Inl err)
           \<or> (\<exists>resp body err.
                 snd (client_Do e (entered w) (token_request clientID clientSecret u)) = Inr resp
               \<and> Body resp = Inr body
               \<and> json_Unmarshal e body AccessTokenResponse_zero = Inl err))))"
  (is "?status \<and> ?success \<and> ?errors")
proof (intro conjI)
  show ?status
    by (rule generateAccessToken_with_status)
  show ?success
  proof (intro allI impI, elim conjE)
    fix u took resp body tokenResp
    assume "url_Parse e (uaaUrl @ ''/oauth/token?grant_type=client_credentials'') = Inr u"
      and "client_Do e (entered w) (token_request clientID clientSecret u) = (took, Inr resp)"
      and rest: "Body resp = Inr body" "json_Unmarshal e body AccessTokenResponse_zero = Inr tokenResp"
    from generateAccessToken_built [OF this(1,2)] rest
    show "fst (generateAccessToken e clientID clientSecret uaaUrl w)
            = Inr \<lparr>Value = AccessToken tokenResp, ExpiresAt = clock w + int took + Hour\<rparr>"
      by simp
  qed
  show ?errors
  proof (cases "url_Parse e (uaaUrl @ ''/oauth/token?grant_type=client_credentials'')")
    case (Inl err)
    from generateAccessToken_unbuilt [OF Inl] Inl show ?thesis by simp
  next
    case (Inr u)
    obtain took res where
      d: "client_Do e (entered w) (token_request clientID clientSecret u) = (took, res)"
      by (cases "client_Do e (entered w) (token_request clientID clientSecret u)")
    from generateAccessToken_built [OF Inr d] Inr d show ?thesis
      by (auto split: sum.splits)
  qed
qed

theorem no_status_code_check_witness:
  "fst (generateAccessToken unauthorized ''client-1'' ''wrong'' ''https://uaa.example'' world0)
     = Inr \<lparr>Value = '''', ExpiresAt = 250 + Hour\<rparr>
   \<and> fst (generateAccessToken (with_status 200 unauthorized) ''client-1'' ''wrong'' ''https://uaa.example'' world0)
     = Inr \<lparr>Value = '''', ExpiresAt = 250 + Hour\<rparr>"
proof -
  have parses: "url_Parse unauthorized (''https://uaa.example'' @ ''/oauth/token?grant_type=client_credentials'') = Inr uaa_token_url"
    by (simp add: unauthorized_def stub_env_def)
  have reply: "client_Do unauthorized (entered world0) (token_request ''client-1'' ''wrong'' uaa_token_url)
      = (250, Inr \<lparr>StatusCode = 401, Body = Inr ''{}''\<rparr>)"
    by (simp add: unauthorized_def stub_env_def)
  have body: "Body \<lparr>StatusCode = 401, Body = Inr ''{}''\<rparr> = Inr ''{}''"
    by simp
  have decoded: "json_Unmarshal unauthorized ''{}'' AccessTokenResponse_zero = Inr AccessTokenResponse_zero"
    by (simp add: unauthorized_def stub_env_def)
  note th = no_status_code_check [of 200 unauthorized "''client-1''" "''wrong''" "''https://uaa.example''" world0]
  from th parses reply body decoded
  have "fst (generateAccessToken unauthorized ''client-1'' ''wrong'' ''https://uaa.example'' world0)
     = Inr \<lparr>Value = AccessToken AccessTokenResponse_zero, ExpiresAt = clock world0 + int 250 + Hour\<rparr>"
    by blast
  then have one: "fst (generateAccessToken unauthorized ''client-1'' ''wrong'' ''https://uaa.example'' world0)
     = Inr \<lparr>Value = '''', ExpiresAt = 250 + Hour\<rparr>"
    by (simp add: AccessTokenResponse_zero_def world0_def)
  from th have "generateAccessToken (with_status 200 unauthorized) ''client-1'' ''wrong'' ''https://uaa.example'' world0
     = generateAccessToken unauthorized ''client-1'' ''wrong'' ''https://uaa.example'' world0"
    by (rule conjunct1)
  with one show ?thesis by simp
qed

subsection \<open>Claims about the validity window\<close>

text \<open>
  Claim C2 (fixed one-hour window). For every successful fetch, the token's expiry is the
  clock at the fetch's completion plus exactly one hour (3600 * 10^9 nanoseconds),
  and the fetch is the same whatever \<open>expires_in\<close> the decoded response carries; a call
  that finds nothing valid stores that token. Consequently, with the token in the cache, a
  call for the identifier at any clock strictly before completion plus one hour returns
  the token's value and changes nothing, and a call at or after completion plus one hour
  takes the refresh path, entering the fetch once.
\<close>

theorem fixed_one_hour_window:
  assumes "generateAccessToken e clientID clientSecret uaaUrl w = (Inr newToken, w')"
  shows "ExpiresAt newToken = clock w' + 3600 * 1000000000
     \<and> generateAccessToken (with_expires_in n e) clientID clientSecret uaaUrl w = (Inr newToken, w')
     \<and> (\<forall>tm. \<not> mutex tm \<and> no_valid_entry tm clientID w \<longrightarrow>
           GetAccessToken e clientID clientSecret uaaUrl (tm, w)
             = Some ((Value newToken, None),
                 tm\<lparr>tokenCache := (tokenCache tm)(clientID \<mapsto> newToken)\<rparr>, w'))
     \<and> (\<forall>tm2 e2 secret2 url2 w2.
           \<not> mutex tm2 \<and> tokenCache tm2 clientID = Some newToken
             \<and> clock w2 < clock w' + 3600 * 1000000000 \<longrightarrow>
           GetAccessToken e2 clientID secret2 url2 (tm2, w2) = Some ((Value newToken, None), tm2, w2))
     \<and> (\<forall>tm2 e2 secret2 url2 w2.
           \<not> mutex tm2 \<and> tokenCache tm2 clientID = Some newToken
             \<and> clock w' + 3600 * 1000000000 \<le> clock w2 \<longrightarrow>
           GetAccessToken e2 clientID secret2 url2 (tm2, w2)
             = Some (GetAccessToken_refresh e2 clientID secret2 url2 (tm2, w2))
           \<and> fetch_calls (snd (snd (GetAccessToken_refresh e2 clientID secret2 url2 (tm2, w2))))
               = fetch_calls w2 + 1)"
  (is "?expiry \<and> ?indep \<and> ?stored \<and> ?valid \<and> ?expired")
proof (intro conjI)
  show expiry: ?expiry
  proof (cases "url_Parse e (uaaUrl @ ''/oauth/token?grant_type=client_credentials'')")
    case (Inl err)
    from generateAccessToken_unbuilt [OF Inl] assms show ?thesis by simp
  next
    case (Inr u)
    obtain took res where
      d: "client_Do e (entered w) (token_request clientID clientSecret u) = (took, res)"
      by (cases "client_Do e (entered w) (token_request clientID clientSecret u)")
    from generateAccessToken_built [OF Inr d] assms show ?thesis
      by (auto simp add: exchanged_def Hour_def split: sum.splits)
  qed
  show ?indep
    using assms by (simp add: generateAccessToken_with_expires_in)
  show ?stored
  proof (intro allI impI, elim conjE)
    fix tm
    assume "\<not> mutex tm" "no_valid_entry tm clientID w"
    from GetAccessToken_miss [OF this, of e clientSecret uaaUrl] assms
    show "GetAccessToken e clientID clientSecret uaaUrl (tm, w)
             = Some ((Value newToken, None),
                 tm\<lparr>tokenCache := (tokenCache tm)(clientID \<mapsto> newToken)\<rparr>, w')"
      by simp
  qed
  show ?valid
  proof (intro allI impI, elim conjE)
    fix tm2 :: AccessTokenManager and e2 :: env and secret2 url2 :: string and w2 :: world
    assume free: "\<not> mutex tm2" and entry: "tokenCache tm2 clientID = Some newToken"
      and "clock w2 < clock w' + 3600 * 1000000000"
    with expiry have "clock w2 < ExpiresAt newToken" by simp
    from GetAccessToken_hit [OF free entry this]
    show "GetAccessToken e2 clientID secret2 url2 (tm2, w2) = Some ((Value newToken, None), tm2, w2)" .
  qed
  show ?expired
  proof (intro allI impI, elim conjE)
    fix tm2 :: AccessTokenManager and e2 :: env and secret2 url2 :: string and w2 :: world
    assume free: "\<not> mutex tm2" and entry: "tokenCache tm2 clientID = Some newToken"
      and "clock w' + 3600 * 1000000000 \<le> clock w2"
    with expiry have "no_valid_entry tm2 clientID w2"
      by (simp add: no_valid_entry_def)
    from GetAccessToken_miss [OF free this, of e2 secret2 url2]
    have "GetAccessToken e2 clientID secret2 url2 (tm2, w2)
             = Some (GetAccessToken_refresh e2 clientID secret2 url2 (tm2, w2))"
      by (simp add: GetAccessToken_refresh_def)
    moreover have "fetch_calls (snd (snd (GetAccessToken_refresh e2 clientID secret2 url2 (tm2, w2))))
               = fetch_calls w2 + 1"
      using generateAccessToken_counts [of e2 clientID secret2 url2 w2]
      by (auto simp add: GetAccessToken_refresh_def split: prod.splits sum.splits)
    ultimately show "GetAccessToken e2 clientID secret2 url2 (tm2, w2)
             = Some (GetAccessToken_refresh e2 clientID secret2 url2 (tm2, w2))
           \<and> fetch_calls (snd (snd (GetAccessToken_refresh e2 clientID secret2 url2 (tm2, w2))))
               = fetch_calls w2 + 1"
      by simp
  qed
qed

theorem fixed_one_hour_window_witness:
  "GetAccessToken endpoint ''client-1'' ''s3cr3t'' ''https://uaa.example'' (NewAccessTokenManager, world0)
     = Some ((''abc123'', None),
         \<lparr>mutex = False, tokenCache = [''client-1'' \<mapsto> \<lparr>Value = ''abc123'', ExpiresAt = 250 + Hour\<rparr>]\<rparr>,
         exchanged world0 250 (token_request ''client-1'' ''s3cr3t'' uaa_token_url))
   \<and> GetAccessToken refusing ''client-1'' ''s3cr3t'' ''https://uaa.example''
        (\<lparr>mutex = False, tokenCache = [''client-1'' \<mapsto> \<lparr>Value = ''abc123'', ExpiresAt = 250 + Hour\<rparr>]\<rparr>,
         at_time (250 + 30 * Minute))
     = Some ((''abc123'', None),
         \<lparr>mutex = False, tokenCache = [''client-1'' \<mapsto> \<lparr>Value = ''abc123'', ExpiresAt = 250 + Hour\<rparr>]\<rparr>,
         at_time (250 + 30 * Minute))
   \<and> fetch_calls (snd (snd (GetAccessToken_refresh refusing ''client-1'' ''s3cr3t'' ''https://uaa.example''
        (\<lparr>mutex = False, tokenCache = [''client-1'' \<mapsto> \<lparr>Value = ''abc123'', ExpiresAt = 250 + Hour\<rparr>]\<rparr>,
         at_time (250 + 60 * Minute))))) = 1"
proof -
  let ?tok = "\<lparr>Value = ''abc123'', ExpiresAt = 250 + Hour\<rparr>"
  let ?tm = "\<lparr>mutex = False, tokenCache = [''client-1'' \<mapsto> ?tok]\<rparr>"
  let ?w' = "exchanged world0 250 (token_request ''client-1'' ''s3cr3t'' uaa_token_url)"
  have fetched: "generateAccessToken endpoint ''client-1'' ''s3cr3t'' ''https://uaa.example'' world0
     = (Inr ?tok, ?w')"
    by (simp add: generateAccessToken_built [where took = 250 and res = ok_reply and u = uaa_token_url] stub_simps)
  note th = fixed_one_hour_window [OF fetched, of 0]
  have free: "\<not> mutex NewAccessTokenManager" and empty: "no_valid_entry NewAccessTokenManager ''client-1'' world0"
    by (simp_all add: NewAccessTokenManager_def no_valid_entry_def)
  from th free empty
  have "GetAccessToken endpoint ''client-1'' ''s3cr3t'' ''https://uaa.example'' (NewAccessTokenManager, world0)
     = Some ((Value ?tok, None),
         NewAccessTokenManager\<lparr>tokenCache := (tokenCache NewAccessTokenManager)(''client-1'' \<mapsto> ?tok)\<rparr>, ?w')"
    by blast
  then have first: "GetAccessToken endpoint ''client-1'' ''s3cr3t'' ''https://uaa.example'' (NewAccessTokenManager, world0)
     = Some ((''abc123'', None), ?tm, ?w')"
    by (simp add: NewAccessTokenManager_def)
  have held: "\<not> mutex ?tm" "tokenCache ?tm ''client-1'' = Some ?tok"
    by simp_all
  have early: "clock (at_time (250 + 30 * Minute)) < clock ?w' + 3600 * 1000000000"
    by (simp add: at_time_def exchanged_def entered_def world0_def Minute_def)
  have late: "clock ?w' + 3600 * 1000000000 \<le> clock (at_time (250 + 60 * Minute))"
    by (simp add: at_time_def exchanged_def entered_def world0_def Minute_def)
  from th held early
  have second: "GetAccessToken refusing ''client-1'' ''s3cr3t'' ''https://uaa.example''
        (?tm, at_time (250 + 30 * Minute)) = Some ((Value ?tok, None), ?tm, at_time (250 + 30 * Minute))"
    by blast
  from th held late
  have "fetch_calls (snd (snd (GetAccessToken_refresh refusing ''client-1'' ''s3cr3t'' ''https://uaa.example''
        (?tm, at_time (250 + 60 * Minute))))) = fetch_calls (at_time (250 + 60 * Minute)) + 1"
    by blast
  then have third: "fetch_calls (snd (snd (GetAccessToken_refresh refusing ''client-1'' ''s3cr3t'' ''https://uaa.example''
        (?tm, at_time (250 + 60 * Minute))))) = 1"
    by (simp add: at_time_def)
  from first second third show ?thesis by simp
qed

subsection \<open>Claims about the cache over time\<close>

text \<open>
  Claim C8 (no deletion, per-key frame). A call of \<open>GetAccessToken\<close> that returns
  removes no key from the cache, and leaves the entry (present or absent) of every client
  identifier other than the requested one as it was. Over a lifetime of calls from
  \<open>NewAccessTokenManager\<close> every call returns, and the keys cached after any first part
  of the lifetime are still cached after any continuation of it.
\<close>

theorem cache_keys_only_grow:
  "(\<forall>r tm' w'. GetAccessToken e clientID clientSecret uaaUrl (tm, w) = Some (r, tm', w') \<longrightarrow>
       dom (tokenCache tm) \<subseteq> dom (tokenCache tm')
     \<and> (\<forall>k. k \<noteq> clientID \<longrightarrow> tokenCache tm' k = tokenCache tm k))
   \<and> (\<exists>tm1 w1 tm2 w2.
         GetAccessToken_calls e cs1 (NewAccessTokenManager, w0) = Some (tm1, w1)
       \<and> GetAccessToken_calls e (cs1 @ cs2) (NewAccessTokenManager, w0) = Some (tm2, w2)
       \<and> dom (tokenCache tm1) \<subseteq> dom (tokenCache tm2))"
  (is "?call \<and> ?life")
proof
  show ?call
    using GetAccessToken_effect [of e clientID clientSecret uaaUrl tm w] by blast
  have "\<not> mutex NewAccessTokenManager"
    by (simp add: NewAccessTokenManager_def)
  from GetAccessToken_calls_effect [OF this, of e cs1 w0] obtain tm1 w1 where
    one: "GetAccessToken_calls e cs1 (NewAccessTokenManager, w0) = Some (tm1, w1)" "\<not> mutex tm1"
    by blast
  from GetAccessToken_calls_effect [OF one(2), of e cs2 w1] obtain tm2 w2 where
    two: "GetAccessToken_calls e cs2 (tm1, w1) = Some (tm2, w2)"
      "dom (tokenCache tm1) \<subseteq> dom (tokenCache tm2)"
    by blast
  have "GetAccessToken_calls e (cs1 @ cs2) (NewAccessTokenManager, w0) = Some (tm2, w2)"
    by (simp add: GetAccessToken_calls_append one(1) two(1))
  with one(1) two(2) show ?life by blast
qed

theorem cache_keys_only_grow_witness:
  "GetAccessToken endpoint ''client-2'' ''t0ps3cr3t'' ''https://uaa.example'' (stale_manager, at_time 100)
     = Some ((''abc123'', None),
         stale_manager\<lparr>tokenCache := (tokenCache stale_manager)
            (''client-2'' \<mapsto> \<lparr>Value = ''abc123'', ExpiresAt = 350 + Hour\<rparr>)\<rparr>,
         exchanged (at_time 100) 250 (token_request ''client-2'' ''t0ps3cr3t'' uaa_token_url))
   \<and> dom (tokenCache stale_manager)
       \<subseteq> dom (tokenCache (stale_manager\<lparr>tokenCache := (tokenCache stale_manager)
            (''client-2'' \<mapsto> \<lparr>Value = ''abc123'', ExpiresAt = 350 + Hour\<rparr>)\<rparr>))
   \<and> tokenCache (stale_manager\<lparr>tokenCache := (tokenCache stale_manager)
            (''client-2'' \<mapsto> \<lparr>Value = ''abc123'', ExpiresAt = 350 + Hour\<rparr>)\<rparr>) ''client-1''
       = tokenCache stale_manager ''client-1''"
proof -
  let ?tm' = "stale_manager\<lparr>tokenCache := (tokenCache stale_manager)
            (''client-2'' \<mapsto> \<lparr>Value = ''abc123'', ExpiresAt = 350 + Hour\<rparr>)\<rparr>"
  let ?w' = "exchanged (at_time 100) 250 (token_request ''client-2'' ''t0ps3cr3t'' uaa_token_url)"
  have free: "\<not> mutex stale_manager" and absent: "no_valid_entry stale_manager ''client-2'' (at_time 100)"
    by (simp_all add: stale_manager_def no_valid_entry_def)
  have fetched: "generateAccessToken endpoint ''client-2'' ''t0ps3cr3t'' ''https://uaa.example'' (at_time 100)
     = (Inr \<lparr>Value = ''abc123'', ExpiresAt = 350 + Hour\<rparr>, ?w')"
    by (simp add: generateAccessToken_built [where took = 250 and res = ok_reply and u = uaa_token_url] stub_simps)
  have call: "GetAccessToken endpoint ''client-2'' ''t0ps3cr3t'' ''https://uaa.example'' (stale_manager, at_time 100)
     = Some ((''abc123'', None), ?tm', ?w')"
    using GetAccessToken_miss [OF free absent, of endpoint "''t0ps3cr3t''" "''https://uaa.example''"]
    by (simp add: fetched)
  have other: "''client-1'' \<noteq> ''client-2''"
    by simp
  note frame = cache_keys_only_grow [where e = endpoint and clientID = "''client-2''"
      and clientSecret = "''t0ps3cr3t''" and uaaUrl = "''https://uaa.example''"
      and tm = stale_manager and w = "at_time 100", THEN conjunct1, rule_format, OF call]
  from frame have keys: "dom (tokenCache stale_manager) \<subseteq> dom (tokenCache ?tm')"
    by (rule conjunct1)
  from frame have "\<forall>k. k \<noteq> ''client-2'' \<longrightarrow> tokenCache ?tm' k = tokenCache stale_manager k"
    by (rule conjunct2)
  from this [rule_format, OF other]
  have same: "tokenCache ?tm' ''client-1'' = tokenCache stale_manager ''client-1''" .
  from call keys same show ?thesis
    by (intro conjI)
qed

text \<open>
  Claim C10 (an empty token is cached). Whenever the cache has nothing valid for the
  client identifier, the request is built, the exchange gives a response whose body is
  read and decodes without error into the zero-valued struct, and the decoded
  \<open>AccessToken\<close> is the empty string (the field was absent and kept its zero value, or
  was present and empty), \<open>GetAccessToken\<close> returns the empty string with a nil error
  and stores a token with empty value that expires one hour after the fetch's completion.
  After any further calls, for whatever identifiers, a call for that identifier at a clock
  still before that expiry returns the empty string with a nil error and leaves the
  manager and the world (fetch counter and request log included) untouched.
\<close>

theorem empty_token_is_cached:
  assumes "\<not> mutex tm" and "no_valid_entry tm clientID w"
    and "url_Parse e (uaaUrl @ ''/oauth/token?grant_type=client_credentials'') = Inr u"
    and "client_Do e (entered w) (token_request clientID clientSecret u) = (took, Inr resp)"
    and "Body resp = Inr body"
    and "json_Unmarshal e body AccessTokenResponse_zero = Inr tokenResp"
    and "AccessToken tokenResp = ''''"
  shows "\<exists>tm' w'. GetAccessToken e clientID clientSecret uaaUrl (tm, w) = Some (('''', None), tm', w')
     \<and> clock w' = clock w + int took
     \<and> tokenCache tm' clientID = Some \<lparr>Value = '''', ExpiresAt = clock w' + 3600 * 1000000000\<rparr>
     \<and> (\<forall>e2 cs tm2 w2 e3 secret3 url3 w3.
           GetAccessToken_calls e2 cs (tm', w') = Some (tm2, w2)
           \<and> clock w2 \<le> clock w3 \<and> clock w3 < clock w' + 3600 * 1000000000
         \<longrightarrow> GetAccessToken e3 clientID secret3 url3 (tm2, w3) = Some (('''', None), tm2, w3))"
proof -
  let ?tok = "\<lparr>Value = '''', ExpiresAt = clock w + int took + Hour\<rparr>"
  let ?tm' = "tm\<lparr>tokenCache := (tokenCache tm)(clientID \<mapsto> ?tok)\<rparr>"
  let ?w' = "exchanged w took (token_request clientID clientSecret u)"
  have fetched: "generateAccessToken e clientID clientSecret uaaUrl w = (Inr ?tok, ?w')"
    using generateAccessToken_built [OF assms(3,4)] assms(5-7) by simp
  have call: "GetAccessToken e clientID clientSecret uaaUrl (tm, w) = Some (('''', None), ?tm', ?w')"
    using GetAccessToken_miss [OF assms(1,2), of e clientSecret uaaUrl] fetched by simp
  have clk: "clock ?w' = clock w + int took"
    by (simp add: exchanged_def)
  have entry: "tokenCache ?tm' clientID = Some \<lparr>Value = '''', ExpiresAt = clock ?w' + 3600 * 1000000000\<rparr>"
    by (simp add: exchanged_def Hour_def)
  have free': "\<not> mutex ?tm'"
    using assms(1) by simp
  have later: "GetAccessToken e3 clientID secret3 url3 (tm2, w3) = Some (('''', None), tm2, w3)"
    if run: "GetAccessToken_calls e2 cs (?tm', ?w') = Some (tm2, w2)"
      and order: "clock w2 \<le> clock w3" "clock w3 < clock ?w' + 3600 * 1000000000"
    for e2 cs tm2 w2 e3 secret3 url3 w3
  proof -
    let ?t = "\<lparr>Value = '''', ExpiresAt = clock ?w' + 3600 * 1000000000\<rparr>"
    from order have "clock w2 < ExpiresAt ?t" by simp
    from GetAccessToken_calls_keep_valid [OF run entry this]
    have kept: "tokenCache tm2 clientID = Some ?t" .
    from GetAccessToken_calls_effect [OF free', of e2 cs ?w'] run
    have "\<not> mutex tm2" by auto
    from GetAccessToken_hit [OF this kept, of w3 e3 secret3 url3] order(2)
    show ?thesis by simp
  qed
  from call clk entry later show ?thesis by blast
qed

theorem empty_token_is_cached_witness:
  "\<exists>tm' w' tm2 w2.
      GetAccessToken unauthorized ''client-1'' ''wrong'' ''https://uaa.example'' (NewAccessTokenManager, world0)
        = Some (('''', None), tm', w')
    \<and> tokenCache tm' ''client-1'' = Some \<lparr>Value = '''', ExpiresAt = 250 + Hour\<rparr>
    \<and> GetAccessToken_calls endpoint [(600000000000, ''client-2'', ''t0ps3cr3t'', ''https://uaa.example'')] (tm', w')
        = Some (tm2, w2)
    \<and> GetAccessToken endpoint ''client-1'' ''s3cr3t'' ''https://uaa.example'' (tm2, w2\<lparr>clock := 59 * Minute\<rparr>)
        = Some (('''', None), tm2, w2\<lparr>clock := 59 * Minute\<rparr>)"
proof -
  have free: "\<not> mutex NewAccessTokenManager"
    and empty: "no_valid_entry NewAccessTokenManager ''client-1'' world0"
    by (simp_all add: NewAccessTokenManager_def no_valid_entry_def)
  have parses: "url_Parse unauthorized (''https://uaa.example'' @ ''/oauth/token?grant_type=client_credentials'') = Inr uaa_token_url"
    by (simp add: unauthorized_def stub_env_def)
  have reply: "client_Do unauthorized (entered world0) (token_request ''client-1'' ''wrong'' uaa_token_url)
      = (250, Inr \<lparr>StatusCode = 401, Body = Inr ''{}''\<rparr>)"
    by (simp add: unauthorized_def stub_env_def)
  have body: "Body \<lparr>StatusCode = 401, Body = Inr ''{}''\<rparr> = Inr ''{}''"
    by simp
  have decoded: "json_Unmarshal unauthorized ''{}'' AccessTokenResponse_zero = Inr AccessTokenResponse_zero"
    by (simp add: unauthorized_def stub_env_def)
  have lacks: "AccessToken AccessTokenResponse_zero = ''''"
    by (simp add: AccessTokenResponse_zero_def)
  from empty_token_is_cached [OF free empty parses reply body decoded lacks]
  obtain tm' w' where
    first: "GetAccessToken unauthorized ''client-1'' ''wrong'' ''https://uaa.example'' (NewAccessTokenManager, world0)
        = Some (('''', None), tm', w')"
    and clk: "clock w' = clock world0 + int 250"
    and entry: "tokenCache tm' ''client-1'' = Some \<lparr>Value = '''', ExpiresAt = clock w' + 3600 * 1000000000\<rparr>"
    and later: "\<And>e2 cs tm2 w2 e3 secret3 url3 w3.
           GetAccessToken_calls e2 cs (tm', w') = Some (tm2, w2) \<Longrightarrow>
           clock w2 \<le> clock w3 \<Longrightarrow> clock w3 < clock w' + 3600 * 1000000000
         \<Longrightarrow> GetAccessToken e3 ''client-1'' secret3 url3 (tm2, w3) = Some (('''', None), tm2, w3)"
    by blast
  have "\<not> mutex tm'"
    using GetAccessToken_effect [OF first] by simp
  from GetAccessToken_returns [OF this, of endpoint "''client-2''" "''t0ps3cr3t''" "''https://uaa.example''"
      "w'\<lparr>clock := clock w' + int 600000000000\<rparr>"]
  obtain r tm2 w2 where
    second: "GetAccessToken endpoint ''client-2'' ''t0ps3cr3t'' ''https://uaa.example''
        (tm', w'\<lparr>clock := clock w' + int 600000000000\<rparr>) = Some (r, tm2, w2)"
    by blast
  then have run: "GetAccessToken_calls endpoint
        [(600000000000, ''client-2'', ''t0ps3cr3t'', ''https://uaa.example'')] (tm', w') = Some (tm2, w2)"
    by simp
  have absent: "no_valid_entry tm' ''client-2'' (w'\<lparr>clock := clock w' + int 600000000000\<rparr>)"
    using GetAccessToken_effect [OF first]
    by (auto simp add: no_valid_entry_def NewAccessTokenManager_def split: option.splits)
  have "w2 = snd (generateAccessToken endpoint ''client-2'' ''t0ps3cr3t'' ''https://uaa.example''
        (w'\<lparr>clock := clock w' + int 600000000000\<rparr>))"
    using GetAccessToken_miss [OF \<open>\<not> mutex tm'\<close> absent, of endpoint "''t0ps3cr3t''" "''https://uaa.example''"] second
    by (auto split: prod.splits sum.splits)
  then have "clock w2 = clock w' + 600000000000 + 250"
    by (simp add: generateAccessToken_built [where took = 250 and res = ok_reply and u = uaa_token_url] stub_simps)
  with clk have now: "clock w2 \<le> clock (w2\<lparr>clock := 59 * Minute\<rparr>)"
    "clock (w2\<lparr>clock := 59 * Minute\<rparr>) < clock w' + 3600 * 1000000000"
    by (simp_all add: world0_def Minute_def)
  from later [OF run now]
  have third: "GetAccessToken endpoint ''client-1'' ''s3cr3t'' ''https://uaa.example'' (tm2, w2\<lparr>clock := 59 * Minute\<rparr>)
        = Some (('''', None), tm2, w2\<lparr>clock := 59 * Minute\<rparr>)" .
  from entry clk have "tokenCache tm' ''client-1'' = Some \<lparr>Value = '''', ExpiresAt = 250 + Hour\<rparr>"
    by (simp add: world0_def Hour_def)
  with first run third show ?thesis by blast
qed

end
